theory Spec2Isabelle
  imports Main "HOL-Library.Word"
begin

section \<open>The hex editor provider (src/hexEditorProvider.ts)\<close>

text \<open>
  A shallow embedding of the class \<open>HexEditorProvider\<close>: its request counter and
  callback map, the messages it posts to webview panels, the notices it shows, and
  the three message listeners that \<open>resolveCustomEditor\<close> registers on a panel.
  The classes \<open>HexDocument\<close> and \<open>WebviewCollection\<close> are imported by the file
  but are not part of the sources; what the provider needs of them is modelled
  from the specification and marked so.
\<close>

subsection \<open>Values on the message channel\<close>

text \<open>
  Message bodies are typed \<open>any\<close> in the source. The values that occur are the
  JSON values, \<open>undefined\<close>, and the \<open>Uint8Array\<close> holding a document's bytes.
  An object is the list of its properties in the order the literal writes them.
\<close>

type_synonym byte = "8 word"

datatype jsval =
    JUndefined
  | JNull
  | JBool bool
  | JNum int
  | JStr string
  | JBytes "byte list"
  | JArr "jsval list"
  | JObj "(string \<times> jsval) list"

text \<open>
  Property access \<open>v.k\<close>. Of two properties of one name the later one counts.
  A property that is absent reads as \<open>undefined\<close>, and so
  does any property name used here on a value that is not an object. (On \<open>null\<close>
  and \<open>undefined\<close> the access raises a TypeError inside the listener; a listener
  that raises changes nothing of the provider, which is what reading \<open>undefined\<close>
  gives in every listener below.)
\<close>

fun get_prop :: "jsval \<Rightarrow> string \<Rightarrow> jsval" where
  "get_prop (JObj kvs) k = (case map_of (rev kvs) k of None \<Rightarrow> JUndefined | Some v \<Rightarrow> v)"
| "get_prop v k = JUndefined"

text \<open>
  The comparison \<open>e.type == 'open-anyways'\<close> is JavaScript's abstract equality, not
  the strict one. Against this literal it holds for the string itself, and for an
  array whose conversion to a string is the literal: an array converts by joining
  the strings of its elements with commas, so it has exactly one element, whose own
  conversion is the literal. Numbers and booleans compare as numbers (the literal
  is not a numeral), \<open>null\<close> and \<open>undefined\<close> equal no string, a plain object
  converts to \<open>[object Object]\<close> and a byte array to decimal digits and commas.
\<close>

fun loose_eq_open_anyways :: "jsval \<Rightarrow> bool" where
  "loose_eq_open_anyways (JStr s) = (s = ''open-anyways'')"
| "loose_eq_open_anyways (JArr [v]) = loose_eq_open_anyways v"
| "loose_eq_open_anyways v = False"

subsection \<open>Documents\<close>

text \<open>
  Modelled from the spec: the class \<open>HexDocument\<close> (hexDocument.ts is not among the
  sources). The provider reads \<open>uri\<close>, \<open>filesize\<close> and \<open>documentData\<close> and calls
  \<open>openAnyways\<close>; \<open>openedFully\<close> is the flag of section 3 of the specification.
\<close>

record hexdoc =
  uri :: string
  filesize :: nat
  documentData :: "byte list"
  openedFully :: bool

text \<open>
  Modelled from the spec: \<open>HexDocument.openAnyways\<close> (section 4.1): re-invokes the
  byte source without the threshold, replaces the content with the full byte
  sequence and sets \<open>openedFully\<close>; a call on a fully open document is a no-op.
  The argument \<open>full\<close> is what the byte source returns for the document.
\<close>

definition openAnyways :: "byte list \<Rightarrow> hexdoc \<Rightarrow> hexdoc" where
  "openAnyways full document =
     (if openedFully document then document
      else document\<lparr>documentData := full, openedFully := True\<rparr>)"

subsection \<open>The view registry\<close>

type_synonym panel = nat

text \<open>
  Modelled from the spec: the class \<open>WebviewCollection\<close> (webViewCollection.ts is
  not among the sources), section 4.2: \<open>add\<close> registers a pairing of a locator and
  a view, \<open>get\<close> returns the live views of a locator in registration order, and a
  pairing removes itself when its view signals disposal.
\<close>

type_synonym webview_collection = "(string \<times> panel) list"

definition webviews_add :: "string \<Rightarrow> panel \<Rightarrow> webview_collection \<Rightarrow> webview_collection" where
  "webviews_add u p ws = ws @ [(u, p)]"

definition webviews_get :: "webview_collection \<Rightarrow> string \<Rightarrow> panel list" where
  "webviews_get ws u = map snd (filter (\<lambda>entry. fst entry = u) ws)"

definition webviews_dispose :: "panel \<Rightarrow> webview_collection \<Rightarrow> webview_collection" where
  "webviews_dispose p ws = filter (\<lambda>entry. snd entry \<noteq> p) ws"

subsection \<open>The provider's state\<close>

text \<open>
  A promise is a cell of a heap; its handle is its index. The promise that
  \<open>postMessageWithResponse\<close> creates hands out only its \<open>resolve\<close> function, which
  the callback map stores: the map sends a request id to the promise that calling
  the stored function would fulfil.
\<close>

datatype promise_state = Pending | Fulfilled jsval | Rejected jsval

text \<open>
  The fields \<open>requestId\<close>, \<open>callbacks\<close> and \<open>webviews\<close> are the private fields
  \<open>_requestId\<close>, \<open>_callbacks\<close> and \<open>webviews\<close> of the class. The request id is a
  JavaScript number that only ever holds a positive integer and is only ever
  incremented; it is a natural number here (a JavaScript number counts exactly up
  to \<open>2^53\<close>, which no run reaches that keeps one map entry per request). The
  other fields are what the provider does to its surroundings, each in the order
  it happens: \<open>outbox\<close> lists the calls of \<open>panel.webview.postMessage\<close>, \<open>notices\<close>
  the calls of \<open>vscode.window.showInformationMessage\<close>, \<open>console\<close> the calls of
  \<open>console.log\<close>. \<open>documents\<close> are the open documents by locator and \<open>byteSource\<close>
  is the host's file content by locator.
\<close>

record provider_state =
  requestId :: nat
  callbacks :: "nat \<rightharpoonup> nat"
  webviews :: webview_collection
  promises :: "promise_state list"
  outbox :: "(panel \<times> jsval) list"
  notices :: "string list"
  console :: "jsval list"
  documents :: "string \<rightharpoonup> hexdoc"
  byteSource :: "string \<Rightarrow> byte list"

text \<open>A provider as its constructor leaves it: \<open>_requestId = 1\<close>, nothing pending.\<close>

definition new_provider :: "(string \<Rightarrow> byte list) \<Rightarrow> provider_state" where
  "new_provider src =
     \<lparr>requestId = 1, callbacks = Map.empty, webviews = [], promises = [],
      outbox = [], notices = [], console = [], documents = Map.empty,
      byteSource = src\<rparr>"

text \<open>
  \<open>register\<close> hands the host one provider for the view type below, with the option
  \<open>supportsMultipleEditorsPerDocument: false\<close>. The option is a request to the host;
  no method of the provider reads it.
\<close>

definition viewType :: string where
  "viewType = ''hexEditor.hexedit''"

definition supportsMultipleEditorsPerDocument :: bool where
  "supportsMultipleEditorsPerDocument = False"

subsection \<open>The message broker\<close>

definition webview_postMessage :: "panel \<Rightarrow> jsval \<Rightarrow> provider_state \<Rightarrow> provider_state" where
  "webview_postMessage p m s = s\<lparr>outbox := outbox s @ [(p, m)]\<rparr>"

text \<open>
  \<open>postMessageWithResponse\<close>, line by line: read and increment the counter; create
  the promise, whose executor runs at once and stores the resolver under the id;
  post the message; return the promise.
\<close>

definition postMessageWithResponse ::
    "panel \<Rightarrow> string \<Rightarrow> jsval \<Rightarrow> provider_state \<Rightarrow> nat \<times> provider_state" where
  "postMessageWithResponse p t body s =
     (let rid = requestId s;
          s1 = s\<lparr>requestId := requestId s + 1\<rparr>;
          pr = length (promises s1);
          s2 = s1\<lparr>promises := promises s1 @ [Pending],
                   callbacks := (callbacks s1)(rid \<mapsto> pr)\<rparr>
      in (pr, webview_postMessage p
                (JObj [(''type'', JStr t), (''requestId'', JNum (int rid)), (''body'', body)]) s2))"

definition postMessage :: "panel \<Rightarrow> string \<Rightarrow> jsval \<Rightarrow> provider_state \<Rightarrow> provider_state" where
  "postMessage p t body s =
     webview_postMessage p (JObj [(''type'', JStr t), (''body'', body)]) s"

text \<open>
  \<open>onMessage\<close>: logs the message, and on the type \<open>edit\<close> (the \<open>switch\<close> compares
  strictly) shows the read-only notice. It has no other case.
\<close>

definition onMessage :: "hexdoc \<Rightarrow> jsval \<Rightarrow> provider_state \<Rightarrow> provider_state" where
  "onMessage document message s =
     (let s1 = s\<lparr>console := console s @ [message]\<rparr>
      in if get_prop message ''type'' = JStr ''edit''
         then s1\<lparr>notices := notices s1 @ [''This editor is currently readonly.'']\<rparr>
         else s1)"

subsection \<open>The listeners of a panel\<close>

definition getBodyHTML :: string where
  \<open>getBodyHTML = ''
		<div class="column" id="data-inspector">
			<div class="header">Data Inspector</div>
			<div class="grid-container">
				<div class="grid-item">
					<label for="binary8">8 bit Binary</label>
				</div>
				<div class="grid-item">
					<input type="text" autocomplete="off" spellcheck="off" id="binary8" readonly/>
				</div>
				<div class="grid-item">
					<label for="int8">Int8</label>
				</div>
				<div class="grid-item">
					<input type="text" autocomplete="off" spellcheck="off" id="int8" readonly/>
				</div>
				<div class="grid-item">
					<label for="uint8">UInt8</label>
				</div>
				<div class="grid-item">
					<input type="text" autocomplete="off" spellcheck="off" id="uint8" readonly/>
				</div>
			</div>
		</div>
		<div class="column left" id="hexaddr">
			<div class="header">Memory Offset </div>
		</div>
		<div class="column middle" id="hexbody">
			<div class="header">
				<span>00</span><span>01</span><span>02</span><span>03</span><span>04</span><span>05</span><span>06</span><span>07</span><span>08</span><span>09</span><span>0A</span><span>0B</span><span>0C</span><span>0D</span><span>0E</span><span>0F</span>
			</div>
		</div>
		<div class="column right" id="ascii">
			<div class="header">Decoded Text</div>
		</div>''\<close>

text \<open>The \<open>init\<close> notification; \<open>html\<close> is the value of its \<open>html\<close> property.\<close>

definition init_body :: "hexdoc \<Rightarrow> jsval \<Rightarrow> jsval" where
  "init_body document html =
     JObj [(''fileSize'', JNum (int (filesize document))),
           (''value'', JBytes (documentData document)),
           (''html'', html)]"

text \<open>The second listener: on \<open>ready\<close> (compared strictly), post \<open>init\<close>.\<close>

definition onReady :: "hexdoc \<Rightarrow> panel \<Rightarrow> jsval \<Rightarrow> provider_state \<Rightarrow> provider_state" where
  "onReady document p e s =
     (if get_prop e ''type'' = JStr ''ready''
      then postMessage p ''init''
             (init_body document
                (if length (documentData document) = filesize document
                 then JStr getBodyHTML else JUndefined)) s
      else s)"

text \<open>
  The third listener: on \<open>open-anyways\<close> (compared loosely), await the document's
  \<open>openAnyways\<close> and then post \<open>init\<close> from the document as it is after that. The
  listener runs here from the call to the end of its continuation.
\<close>

definition onOpenAnyways ::
    "hexdoc \<Rightarrow> panel \<Rightarrow> jsval \<Rightarrow> provider_state \<Rightarrow> hexdoc \<times> provider_state" where
  "onOpenAnyways document p e s =
     (if loose_eq_open_anyways (get_prop e ''type'')
      then (let document' = openAnyways (byteSource s (uri document)) document
            in (document', postMessage p ''init'' (init_body document' (JStr getBodyHTML)) s))
      else (document, s))"

text \<open>
  A message \<open>e\<close> from the webview of panel \<open>p\<close>, opened on \<open>document\<close>: the three
  listeners run in the order \<open>resolveCustomEditor\<close> registered them.
\<close>

definition receive ::
    "hexdoc \<Rightarrow> panel \<Rightarrow> jsval \<Rightarrow> provider_state \<Rightarrow> hexdoc \<times> provider_state" where
  "receive document p e s =
     onOpenAnyways document p e (onReady document p e (onMessage document e s))"

text \<open>
  \<open>resolveCustomEditor\<close> adds the panel to the collection under the document's
  locator and registers the listeners above. (It also sets the panel's options and
  its page, which are the host's and not part of this state.)
\<close>

definition resolveCustomEditor :: "hexdoc \<Rightarrow> panel \<Rightarrow> provider_state \<Rightarrow> provider_state" where
  "resolveCustomEditor document p s =
     s\<lparr>webviews := webviews_add (uri document) p (webviews s)\<rparr>"

subsection \<open>The current-bytes query\<close>

text \<open>
  \<open>getFileData\<close> is the delegate that \<open>openCustomDocument\<close> passes to the document.
  It is an \<open>async\<close> function, so its \<open>throw\<close> is the rejection of the promise it
  returns, and at its \<open>await\<close> it is suspended on the promise of the request.
\<close>

datatype query_result = QRejected string | QAwaiting nat

definition getFileData :: "hexdoc \<Rightarrow> provider_state \<Rightarrow> query_result \<times> provider_state" where
  "getFileData document s =
     (case webviews_get (webviews s) (uri document) of
        [] \<Rightarrow> (QRejected ''Could not find webview to save for'', s)
      | p # others \<Rightarrow>
          (let (pr, s') = postMessageWithResponse p ''getFileData'' (JObj []) s
           in (QAwaiting pr, s')))"

text \<open>
  The continuation after the \<open>await\<close>, on a response of the type the source declares
  for it, \<open>{ data: number[] }\<close>: a \<open>Uint8Array\<close> of \<open>response.data\<close>, which stores each
  number modulo 256. Outside that type the model gives \<open>None\<close>.
\<close>

fun num_of :: "jsval \<Rightarrow> int option" where
  "num_of (JNum n) = Some n"
| "num_of v = None"

definition getFileData_resume :: "jsval \<Rightarrow> byte list option" where
  "getFileData_resume response =
     (case get_prop response ''data'' of
        JArr xs \<Rightarrow>
          (if list_all (\<lambda>x. num_of x \<noteq> None) xs
           then Some (map (\<lambda>x. word_of_int (the (num_of x))) xs) else None)
      | v \<Rightarrow> None)"

text \<open>
  What a call of \<open>getFileData\<close> has returned to its caller by the time the provider
  is in state \<open>s\<close>: nothing while the promise it awaits is pending.
\<close>

definition query_returned :: "provider_state \<Rightarrow> query_result \<Rightarrow> byte list option" where
  "query_returned s q =
     (case q of
        QRejected m \<Rightarrow> None
      | QAwaiting pr \<Rightarrow>
          (if pr < length (promises s)
           then (case promises s ! pr of Fulfilled r \<Rightarrow> getFileData_resume r | st \<Rightarrow> None)
           else None))"

subsection \<open>Runs of the provider\<close>

text \<open>
  What can happen to one provider: the host opens a document (the result of
  \<open>HexDocument.create\<close>), attaches a panel to an open document, a panel's webview
  delivers a message, a panel is disposed, the document asks for its current bytes,
  or a method of the class issues a request. A run does not ask that a message comes
  from a panel that was attached and is not yet disposed: the properties below hold
  for every order of events, the orders the host produces among them.
\<close>

datatype event =
    Open hexdoc
  | Attach string panel
  | Receive string panel jsval
  | DisposeView panel
  | Query string
  | Request panel string jsval

fun step :: "event \<Rightarrow> provider_state \<Rightarrow> provider_state" where
  "step (Open d) s = s\<lparr>documents := (documents s)(uri d \<mapsto> d)\<rparr>"
| "step (Attach u p) s =
     (case documents s u of None \<Rightarrow> s | Some d \<Rightarrow> resolveCustomEditor d p s)"
| "step (Receive u p e) s =
     (case documents s u of
        None \<Rightarrow> s
      | Some d \<Rightarrow> (let (d', s') = receive d p e s in s'\<lparr>documents := (documents s')(u \<mapsto> d')\<rparr>))"
| "step (DisposeView p) s = s\<lparr>webviews := webviews_dispose p (webviews s)\<rparr>"
| "step (Query u) s =
     (case documents s u of None \<Rightarrow> s | Some d \<Rightarrow> snd (getFileData d s))"
| "step (Request p t body) s = snd (postMessageWithResponse p t body s)"

fun run :: "event list \<Rightarrow> provider_state \<Rightarrow> provider_state" where
  "run [] s = s"
| "run (e # es) s = run es (step e s)"

text \<open>The request ids the provider has sent so far, oldest first.\<close>

definition request_id_of :: "jsval \<Rightarrow> nat option" where
  "request_id_of m = (case get_prop m ''requestId'' of JNum n \<Rightarrow> Some (nat n) | v \<Rightarrow> None)"

definition issued :: "provider_state \<Rightarrow> nat list" where
  "issued s = List.map_filter (\<lambda>pm. request_id_of (snd pm)) (outbox s)"

subsection \<open>The broker's effects in order\<close>

text \<open>
  The two sending methods once more, with the list of what they do in the order
  they do it: the counter is read and incremented, a promise is created, a resolver
  is stored in the callback map under an id, a message is handed to the webview of
  a panel. Each operation below changes the state as before and appends its effect
  to the list.
\<close>

datatype effect =
    CounterIncrement nat
  | PromiseCreate nat
  | CallbacksSet nat nat
  | WebviewPost panel jsval

type_synonym traced = "provider_state \<times> effect list"

text \<open>\<open>this._requestId++\<close>: the value read is the result.\<close>

definition next_requestId :: "traced \<Rightarrow> nat \<times> traced" where
  "next_requestId st =
     (case st of (s, tr) \<Rightarrow>
        (requestId s, (s\<lparr>requestId := requestId s + 1\<rparr>, tr @ [CounterIncrement (requestId s)])))"

text \<open>\<open>this._callbacks.set(requestId, resolve)\<close>.\<close>

definition callbacks_set :: "nat \<Rightarrow> nat \<Rightarrow> traced \<Rightarrow> traced" where
  "callbacks_set rid resolve st =
     (case st of (s, tr) \<Rightarrow>
        (s\<lparr>callbacks := (callbacks s)(rid \<mapsto> resolve)\<rparr>, tr @ [CallbacksSet rid resolve]))"

text \<open>
  \<open>new Promise(executor)\<close>: the promise is created pending, and the executor is called
  with its resolver before the constructor returns.
\<close>

definition new_promise :: "(nat \<Rightarrow> traced \<Rightarrow> traced) \<Rightarrow> traced \<Rightarrow> nat \<times> traced" where
  "new_promise executor st =
     (case st of (s, tr) \<Rightarrow>
        (let pr = length (promises s)
         in (pr, executor pr (s\<lparr>promises := promises s @ [Pending]\<rparr>, tr @ [PromiseCreate pr]))))"

text \<open>\<open>panel.webview.postMessage(m)\<close>.\<close>

definition webview_post :: "panel \<Rightarrow> jsval \<Rightarrow> traced \<Rightarrow> traced" where
  "webview_post p m st =
     (case st of (s, tr) \<Rightarrow> (webview_postMessage p m s, tr @ [WebviewPost p m]))"

text \<open>
  \<open>postMessageWithResponse\<close> and \<open>postMessage\<close>, statement by statement as the source
  writes them.
\<close>

definition postMessageWithResponse_traced ::
    "panel \<Rightarrow> string \<Rightarrow> jsval \<Rightarrow> traced \<Rightarrow> nat \<times> traced" where
  "postMessageWithResponse_traced p t body st =
     (let (rid, st1) = next_requestId st;
          (pr, st2) = new_promise (\<lambda>resolve. callbacks_set rid resolve) st1;
          st3 = webview_post p
                  (JObj [(''type'', JStr t), (''requestId'', JNum (int rid)), (''body'', body)]) st2
      in (pr, st3))"

definition postMessage_traced :: "panel \<Rightarrow> string \<Rightarrow> jsval \<Rightarrow> traced \<Rightarrow> traced" where
  "postMessage_traced p t body st =
     webview_post p (JObj [(''type'', JStr t), (''body'', body)]) st"

subsection \<open>Invariants of a run\<close>

text \<open>
  The request ids sent so far are \<open>1, 2, ...\<close> up to the counter, which is the next
  id and is never below 1.
\<close>

definition ids_ok :: "provider_state \<Rightarrow> bool" where
  "ids_ok s = (1 \<le> requestId s \<and> issued s = [1..<requestId s])"

text \<open>The part of the state that the request operation works on.\<close>

definition broker :: "provider_state \<Rightarrow> nat \<times> (nat \<rightharpoonup> nat) \<times> promise_state list" where
  "broker s = (requestId s, callbacks s, promises s)"

text \<open>
  Every entry of the callback map has an id below the counter and a promise of the
  heap, and every promise of the heap is pending.
\<close>

definition pending_ok :: "provider_state \<Rightarrow> bool" where
  "pending_ok s =
     ((\<forall>i pr. callbacks s i = Some pr \<longrightarrow> i < requestId s \<and> pr < length (promises s))
      \<and> (\<forall>pr < length (promises s). promises s ! pr = Pending))"

subsection \<open>Inputs for the worked examples\<close>

text \<open>
  A document of three bytes of which two are loaded, and a response message as
  section 6 of the specification shapes it.
\<close>

definition doc_f :: hexdoc where
  "doc_f = \<lparr>uri = ''f'', filesize = 3, documentData = [1, 2], openedFully = False\<rparr>"

definition response :: "int \<Rightarrow> jsval \<Rightarrow> jsval" where
  "response rid body = JObj [(''requestId'', JNum rid), (''body'', body)]"

text \<open>A byte source that holds the three bytes of the document.\<close>

definition fs :: "string \<Rightarrow> byte list" where
  "fs u = [1, 2, 3]"

text \<open>
  Three requests to panel 7, answered in the order third, first, second; and a
  document with two panels attached, 7 before 9.
\<close>

definition out_of_order_run :: provider_state where
  "out_of_order_run =
     run [Open doc_f, Attach ''f'' 7, Query ''f'', Query ''f'', Query ''f'',
          Receive ''f'' 7 (response 3 (JStr ''C'')),
          Receive ''f'' 7 (response 1 (JStr ''A'')),
          Receive ''f'' 7 (response 2 (JStr ''B''))]
       (new_provider fs)"

definition two_views :: provider_state where
  "two_views = run [Open doc_f, Attach ''f'' 7, Attach ''f'' 9] (new_provider fs)"

section \<open>Properties\<close>

lemmas provider_defs =
  new_provider_def resolveCustomEditor_def webviews_add_def webviews_get_def webviews_dispose_def
  getFileData_def postMessageWithResponse_def postMessage_def webview_postMessage_def
  receive_def onMessage_def onReady_def onOpenAnyways_def init_body_def openAnyways_def
  issued_def request_id_of_def List.map_filter_def Let_def

subsection \<open>What each operation does to the ids sent and to the pending requests\<close>

lemma issued_post_request:
  "issued (snd (postMessageWithResponse p t body s)) = issued s @ [requestId s]"
  by (simp add: postMessageWithResponse_def webview_postMessage_def issued_def
      List.map_filter_def Let_def request_id_of_def)

lemma requestId_post_request:
  "requestId (snd (postMessageWithResponse p t body s)) = requestId s + 1"
  by (simp add: postMessageWithResponse_def webview_postMessage_def Let_def)

lemma issued_postMessage: "issued (postMessage p t body s) = issued s"
  by (simp add: postMessage_def webview_postMessage_def issued_def List.map_filter_def
      request_id_of_def)

lemma requestId_postMessage: "requestId (postMessage p t body s) = requestId s"
  by (simp add: postMessage_def webview_postMessage_def)

lemma issued_onMessage: "issued (onMessage d e s) = issued s"
  by (simp add: onMessage_def issued_def Let_def)

lemma requestId_onMessage: "requestId (onMessage d e s) = requestId s"
  by (simp add: onMessage_def Let_def)

lemma issued_receive: "issued (snd (receive d p e s)) = issued s"
  by (simp add: receive_def onOpenAnyways_def onReady_def issued_postMessage
      issued_onMessage Let_def)

lemma requestId_receive: "requestId (snd (receive d p e s)) = requestId s"
  by (simp add: receive_def onOpenAnyways_def onReady_def requestId_onMessage requestId_postMessage
      Let_def)

lemma issued_getFileData:
  "issued (snd (getFileData d s)) =
     issued s @ (if webviews_get (webviews s) (uri d) = [] then [] else [requestId s])"
proof (cases "webviews_get (webviews s) (uri d)")
  case Nil
  then show ?thesis by (simp add: getFileData_def)
next
  case (Cons p others)
  then have "snd (getFileData d s) = snd (postMessageWithResponse p ''getFileData'' (JObj []) s)"
    by (simp add: getFileData_def split: prod.splits)
  with Cons show ?thesis by (simp add: issued_post_request)
qed

lemma requestId_getFileData:
  "requestId (snd (getFileData d s)) =
     (if webviews_get (webviews s) (uri d) = [] then requestId s else requestId s + 1)"
proof (cases "webviews_get (webviews s) (uri d)")
  case Nil
  then show ?thesis by (simp add: getFileData_def)
next
  case (Cons p others)
  then have "snd (getFileData d s) = snd (postMessageWithResponse p ''getFileData'' (JObj []) s)"
    by (simp add: getFileData_def split: prod.splits)
  with Cons show ?thesis by (simp add: requestId_post_request)
qed

lemma issued_documents: "issued (s\<lparr>documents := ds\<rparr>) = issued s"
  by (simp add: issued_def)

lemma step_Receive_ids:
  "issued (step (Receive u p m) s) = issued s
   \<and> requestId (step (Receive u p m) s) = requestId s"
proof (cases "documents s u")
  case None
  then show ?thesis by simp
next
  case (Some d)
  obtain d' s' where r: "receive d p m s = (d', s')" by (cases "receive d p m s")
  then have s': "s' = snd (receive d p m s)" by simp
  have "step (Receive u p m) s = s'\<lparr>documents := (documents s')(u \<mapsto> d')\<rparr>"
    using Some r by simp
  then show ?thesis
    by (simp add: issued_documents s' requestId_receive issued_receive)
qed

lemma ids_ok_step: "ids_ok s \<Longrightarrow> ids_ok (step e s)"
proof (cases e)
  case (Receive u p m)
  assume "ids_ok s"
  then show ?thesis using Receive step_Receive_ids [of u p m s]
    by (simp add: ids_ok_def)
next
  case (Query u)
  assume "ids_ok s"
  then show ?thesis using Query
    by (auto simp add: ids_ok_def issued_getFileData requestId_getFileData split: option.splits)
next
  case (Request p t b)
  assume "ids_ok s"
  then show ?thesis using Request
    by (auto simp add: ids_ok_def issued_post_request requestId_post_request)
qed (auto simp add: ids_ok_def issued_def resolveCustomEditor_def split: option.splits)

lemma ids_ok_run: "ids_ok s \<Longrightarrow> ids_ok (run es s)"
  by (induction es arbitrary: s) (simp_all add: ids_ok_step)

lemma ids_ok_new: "ids_ok (new_provider src)"
  by (simp add: ids_ok_def new_provider_def issued_def List.map_filter_def)

lemma broker_receive: "broker (snd (receive d p e s)) = broker s"
  by (simp add: broker_def receive_def onOpenAnyways_def onReady_def onMessage_def
      postMessage_def webview_postMessage_def Let_def)

lemma broker_post_request:
  "broker (snd (postMessageWithResponse p t body s)) =
     (requestId s + 1, (callbacks s)(requestId s \<mapsto> length (promises s)),
      promises s @ [Pending])"
  by (simp add: broker_def postMessageWithResponse_def webview_postMessage_def Let_def)

lemma broker_getFileData:
  "broker (snd (getFileData d s)) =
     (if webviews_get (webviews s) (uri d) = [] then broker s
      else (requestId s + 1, (callbacks s)(requestId s \<mapsto> length (promises s)),
            promises s @ [Pending]))"
proof (cases "webviews_get (webviews s) (uri d)")
  case Nil
  then show ?thesis by (simp add: getFileData_def)
next
  case (Cons p others)
  then have "snd (getFileData d s) = snd (postMessageWithResponse p ''getFileData'' (JObj []) s)"
    by (simp add: getFileData_def split: prod.splits)
  with Cons show ?thesis by (simp add: broker_post_request)
qed

lemma broker_step_Receive: "broker (step (Receive u p m) s) = broker s"
proof (cases "documents s u")
  case None
  then show ?thesis by simp
next
  case (Some d)
  obtain d' s' where r: "receive d p m s = (d', s')" by (cases "receive d p m s")
  then have s': "s' = snd (receive d p m s)" by simp
  have "step (Receive u p m) s = s'\<lparr>documents := (documents s')(u \<mapsto> d')\<rparr>"
    using Some r by simp
  then have "broker (step (Receive u p m) s) = broker s'" by (simp add: broker_def)
  then show ?thesis by (simp add: s' broker_receive)
qed

lemma broker_step:
  "broker (step e s) = broker s \<or>
   broker (step e s) =
     (requestId s + 1, (callbacks s)(requestId s \<mapsto> length (promises s)),
      promises s @ [Pending])"
proof (cases e)
  case (Receive u p m)
  have "broker (step e s) = broker s" unfolding Receive by (rule broker_step_Receive)
  then show ?thesis by (rule disjI1)
next
  case (Query u)
  then show ?thesis by (simp add: broker_getFileData split: option.splits)
next
  case (Request p t b)
  then show ?thesis by (simp add: broker_post_request)
qed (simp_all add: broker_def resolveCustomEditor_def split: option.splits)

lemma pending_ok_broker: "broker s' = broker s \<Longrightarrow> pending_ok s' = pending_ok s"
  by (simp add: broker_def pending_ok_def)

lemma pending_step:
  assumes ok: "pending_ok s" and cb: "callbacks s i = Some pr"
  shows "pending_ok (step e s) \<and> callbacks (step e s) i = Some pr"
proof -
  from broker_step [of e s] show ?thesis
  proof
    assume same: "broker (step e s) = broker s"
    then have "callbacks (step e s) = callbacks s" by (simp add: broker_def)
    with ok cb pending_ok_broker [OF same] show ?thesis by simp
  next
    assume new: "broker (step e s) =
      (requestId s + 1, (callbacks s)(requestId s \<mapsto> length (promises s)),
       promises s @ [Pending])"
    then have r: "requestId (step e s) = requestId s + 1"
      and c: "callbacks (step e s) = (callbacks s)(requestId s \<mapsto> length (promises s))"
      and q: "promises (step e s) = promises s @ [Pending]"
      by (simp_all add: broker_def)
    from ok cb have "i < requestId s" by (simp add: pending_ok_def)
    then have "callbacks (step e s) i = Some pr" using c cb by simp
    moreover have "pending_ok (step e s)"
      using ok unfolding pending_ok_def r c q
      by (auto simp add: nth_append less_Suc_eq split: if_splits)
    ultimately show ?thesis by simp
  qed
qed

lemma pending_run:
  "pending_ok s \<Longrightarrow> callbacks s i = Some pr \<Longrightarrow>
     pending_ok (run es s) \<and> callbacks (run es s) i = Some pr"
proof (induction es arbitrary: s)
  case Nil
  then show ?case by simp
next
  case (Cons e es)
  from pending_step [OF Cons.prems] have "pending_ok (step e s)" "callbacks (step e s) i = Some pr"
    by simp_all
  from Cons.IH [OF this] show ?case by simp
qed

lemma pending_ok_step: "pending_ok s \<Longrightarrow> pending_ok (step e s)"
proof -
  assume ok: "pending_ok s"
  from broker_step [of e s] show ?thesis
  proof
    assume "broker (step e s) = broker s"
    from pending_ok_broker [OF this] ok show ?thesis by simp
  next
    assume new: "broker (step e s) =
      (requestId s + 1, (callbacks s)(requestId s \<mapsto> length (promises s)),
       promises s @ [Pending])"
    then have r: "requestId (step e s) = requestId s + 1"
      and c: "callbacks (step e s) = (callbacks s)(requestId s \<mapsto> length (promises s))"
      and q: "promises (step e s) = promises s @ [Pending]"
      by (simp_all add: broker_def)
    show ?thesis
      using ok unfolding pending_ok_def r c q
      by (auto simp add: nth_append less_Suc_eq split: if_splits)
  qed
qed

lemma pending_ok_run: "pending_ok s \<Longrightarrow> pending_ok (run es s)"
  by (induction es arbitrary: s) (simp_all add: pending_ok_step)

lemma pending_ok_new: "pending_ok (new_provider src)"
  by (simp add: pending_ok_def new_provider_def)

subsection \<open>Request ids\<close>

text \<open>
  C5. In every run of a provider from its construction, the request ids it has sent,
  in the order of the calls of \<open>postMessageWithResponse\<close>, are exactly
  \<open>1, 2, ..., k\<close>: the first is 1, each is larger than the one before, and none
  occurs twice, whatever messages (responses among them) arrive in between.
\<close>

theorem request_ids_count_up:
  "issued (run es (new_provider src)) = [1 ..< Suc (length (issued (run es (new_provider src))))]
   \<and> sorted_wrt (<) (issued (run es (new_provider src)))
   \<and> distinct (issued (run es (new_provider src)))"
proof -
  let ?s = "run es (new_provider src)"
  have ok: "ids_ok ?s" by (rule ids_ok_run [OF ids_ok_new])
  then have eq: "issued ?s = [1..<requestId ?s]" and pos: "1 \<le> requestId ?s"
    by (simp_all add: ids_ok_def)
  have "length (issued ?s) = requestId ?s - 1" by (simp add: eq)
  with pos have "Suc (length (issued ?s)) = requestId ?s" by simp
  then have "issued ?s = [1 ..< Suc (length (issued ?s))]" using eq by simp
  moreover have "sorted_wrt (<) (issued ?s)" by (simp add: eq)
  moreover have "distinct (issued ?s)" by (simp add: eq)
  ultimately show ?thesis by simp
qed

theorem request_ids_count_up_witness:
  "issued (run [Open doc_f, Attach ''f'' 7, Query ''f'',
                Receive ''f'' 7 (response 1 (JObj [(''data'', JArr [JNum 1])])),
                Query ''f'', Request 7 ''getFileData'' (JObj [])]
             (new_provider fs)) = [1, 2, 3]"
  using request_ids_count_up [of "[Open doc_f, Attach ''f'' 7, Query ''f'',
                Receive ''f'' 7 (response 1 (JObj [(''data'', JArr [JNum 1])])),
                Query ''f'', Request 7 ''getFileData'' (JObj [])]" fs]
  by (simp add: provider_defs doc_f_def response_def)

subsection \<open>Pending requests\<close>

text \<open>
  C2. An entry of the callback map is made by a request, under the id of the request,
  and no event takes it out: once a run has put a request id into the map, the id
  stays there with its promise, and the promise stays pending (neither fulfilled
  nor rejected), through every further event, the disposal of the panel the request
  went to included.
\<close>

theorem pending_entry_stays:
  assumes "callbacks (run es (new_provider src)) i = Some pr"
  shows "callbacks (snd (postMessageWithResponse p t body s)) (requestId s) =
           Some (fst (postMessageWithResponse p t body s))
         \<and> callbacks (run es' (run es (new_provider src))) i = Some pr
         \<and> promises (run es' (run es (new_provider src))) ! pr = Pending"
proof -
  let ?s = "run es (new_provider src)"
  have made: "callbacks (snd (postMessageWithResponse p t body s)) (requestId s) =
                Some (fst (postMessageWithResponse p t body s))"
    by (simp add: postMessageWithResponse_def webview_postMessage_def Let_def)
  have ok: "pending_ok ?s" by (rule pending_ok_run [OF pending_ok_new])
  from pending_run [OF ok assms, of es']
  have ok': "pending_ok (run es' ?s)" and cb: "callbacks (run es' ?s) i = Some pr"
    by simp_all
  from ok' cb have "pr < length (promises (run es' ?s))" by (simp add: pending_ok_def)
  with ok' have "promises (run es' ?s) ! pr = Pending" by (simp add: pending_ok_def)
  with cb made show ?thesis by simp
qed

theorem pending_entry_stays_witness:
  "callbacks (run [Open doc_f, Attach ''f'' 7, Query ''f''] (new_provider fs)) 1 = Some 0
   \<and> callbacks (run [DisposeView 7, Receive ''f'' 7 (response 1 (JObj [(''data'', JArr [JNum 1])]))]
        (run [Open doc_f, Attach ''f'' 7, Query ''f''] (new_provider fs))) 1 = Some 0
   \<and> promises (run [DisposeView 7, Receive ''f'' 7 (response 1 (JObj [(''data'', JArr [JNum 1])]))]
        (run [Open doc_f, Attach ''f'' 7, Query ''f''] (new_provider fs))) ! 0 = Pending"
proof -
  have h: "callbacks (run [Open doc_f, Attach ''f'' 7, Query ''f''] (new_provider fs)) 1 = Some 0"
    by (simp add: provider_defs doc_f_def)
  from pending_entry_stays [OF h,
      where es' = "[DisposeView 7, Receive ''f'' 7 (response 1 (JObj [(''data'', JArr [JNum 1])]))]"] h
  show ?thesis by blast
qed

subsection \<open>The shape of requests and notifications\<close>

text \<open>
  C8. A request posts exactly one message, the object \<open>{type, requestId, body}\<close>
  with the id the counter held, and returns a promise that is still pending: the
  call does not wait for the answer. What the call does, in order, is: increment
  the counter, create the promise, store the resolver in the callback map under the
  id, post the message; so the resolver is stored before the message is posted. A
  notification posts exactly the object \<open>{type, body}\<close>, which carries no request
  id, and that is all it does.
\<close>

theorem request_and_notification_shapes:
  "(case postMessageWithResponse p t body s of
      (pr, s') \<Rightarrow>
        outbox s' = outbox s @
          [(p, JObj [(''type'', JStr t), (''requestId'', JNum (int (requestId s))), (''body'', body)])]
        \<and> callbacks s' (requestId s) = Some pr
        \<and> pr < length (promises s') \<and> promises s' ! pr = Pending
        \<and> postMessageWithResponse_traced p t body (s, tr) =
            (pr, s',
             tr @ [CounterIncrement (requestId s), PromiseCreate pr,
                   CallbacksSet (requestId s) pr,
                   WebviewPost p (JObj [(''type'', JStr t),
                                        (''requestId'', JNum (int (requestId s))),
                                        (''body'', body)])]))
   \<and> postMessage p t body s =
       s\<lparr>outbox := outbox s @ [(p, JObj [(''type'', JStr t), (''body'', body)])]\<rparr>
   \<and> postMessage_traced p t body (s, tr) =
       (postMessage p t body s, tr @ [WebviewPost p (JObj [(''type'', JStr t), (''body'', body)])])
   \<and> request_id_of (JObj [(''type'', JStr t), (''body'', body)]) = None"
proof -
  let ?m = "JObj [(''type'', JStr t), (''requestId'', JNum (int (requestId s))), (''body'', body)]"
  let ?s2 = "s\<lparr>requestId := requestId s + 1, promises := promises s @ [Pending],
                 callbacks := (callbacks s)(requestId s \<mapsto> length (promises s))\<rparr>"
  have r: "postMessageWithResponse p t body s = (length (promises s), webview_postMessage p ?m ?s2)"
    by (simp add: postMessageWithResponse_def Let_def)
  have a: "outbox (webview_postMessage p ?m ?s2) = outbox s @ [(p, ?m)]"
    by (simp add: webview_postMessage_def)
  have b: "callbacks (webview_postMessage p ?m ?s2) (requestId s) = Some (length (promises s))"
    by (simp add: webview_postMessage_def)
  have c: "length (promises s) < length (promises (webview_postMessage p ?m ?s2))
           \<and> promises (webview_postMessage p ?m ?s2) ! length (promises s) = Pending"
    by (simp add: webview_postMessage_def)
  have d: "postMessageWithResponse_traced p t body (s, tr) =
            (length (promises s), webview_postMessage p ?m ?s2,
             tr @ [CounterIncrement (requestId s), PromiseCreate (length (promises s)),
                   CallbacksSet (requestId s) (length (promises s)), WebviewPost p ?m])"
    by (simp add: postMessageWithResponse_traced_def next_requestId_def new_promise_def
        callbacks_set_def webview_post_def webview_postMessage_def Let_def)
  have e: "postMessage p t body s =
       s\<lparr>outbox := outbox s @ [(p, JObj [(''type'', JStr t), (''body'', body)])]\<rparr>"
    by (simp add: postMessage_def webview_postMessage_def)
  have e': "postMessage_traced p t body (s, tr) =
       (postMessage p t body s, tr @ [WebviewPost p (JObj [(''type'', JStr t), (''body'', body)])])"
    by (simp add: postMessage_traced_def postMessage_def webview_post_def)
  have f: "request_id_of (JObj [(''type'', JStr t), (''body'', body)]) = None"
    by (simp add: request_id_of_def)
  show ?thesis unfolding r using a b c d e e' f by simp
qed

theorem request_and_notification_shapes_witness:
  "fst (postMessageWithResponse 7 ''getFileData'' (JObj []) (new_provider fs)) = 0
   \<and> outbox (snd (postMessageWithResponse 7 ''getFileData'' (JObj []) (new_provider fs))) =
       [(7, JObj [(''type'', JStr ''getFileData''), (''requestId'', JNum 1), (''body'', JObj [])])]
   \<and> snd (snd (postMessageWithResponse_traced 7 ''getFileData'' (JObj []) (new_provider fs, []))) =
       [CounterIncrement 1, PromiseCreate 0, CallbacksSet 1 0,
        WebviewPost 7 (JObj [(''type'', JStr ''getFileData''), (''requestId'', JNum 1),
                            (''body'', JObj [])])]
   \<and> outbox (postMessage 7 ''init'' JNull (new_provider fs)) =
       [(7, JObj [(''type'', JStr ''init''), (''body'', JNull)])]
   \<and> snd (postMessage_traced 7 ''init'' JNull (new_provider fs, [])) =
       [WebviewPost 7 (JObj [(''type'', JStr ''init''), (''body'', JNull)])]"
  using request_and_notification_shapes [where p = 7 and t = "''getFileData''" and body = "JObj []"
      and s = "new_provider fs" and tr = "[]"]
    request_and_notification_shapes [where p = 7 and t = "''init''" and body = JNull
      and s = "new_provider fs" and tr = "[]"]
  by (simp add: provider_defs)

subsection \<open>The listeners\<close>

text \<open>
  C3. On a message of type \<open>ready\<close>, for every document, panel and state, the
  provider logs the message and posts to that panel one \<open>init\<close> notification whose
  body holds \<open>fileSize\<close>, the document's \<open>filesize\<close>, and \<open>value\<close>, the document's
  data; its \<open>html\<close> is the body markup if the length of the data equals the
  \<open>filesize\<close> and \<open>undefined\<close> otherwise (a property that is \<open>undefined\<close> is left
  out when the message is serialized). So \<open>html\<close> is there exactly when the
  document is loaded in full. Nothing else changes.
\<close>

theorem ready_sends_init:
  assumes "get_prop e ''type'' = JStr ''ready''"
  shows "receive d p e s =
           (d, s\<lparr>console := console s @ [e],
                  outbox := outbox s @
                    [(p, JObj [(''type'', JStr ''init''),
                               (''body'', JObj [(''fileSize'', JNum (int (filesize d))),
                                                (''value'', JBytes (documentData d)),
                                                (''html'', if length (documentData d) = filesize d
                                                           then JStr getBodyHTML else JUndefined)])])]\<rparr>)
         \<and> (get_prop (init_body d (if length (documentData d) = filesize d
                                    then JStr getBodyHTML else JUndefined)) ''html'' \<noteq> JUndefined
              \<longleftrightarrow> length (documentData d) = filesize d)"
  using assms
  by (simp add: receive_def onMessage_def onReady_def onOpenAnyways_def postMessage_def
      webview_postMessage_def init_body_def Let_def)

theorem ready_sends_init_witness:
  "get_prop (JObj [(''type'', JStr ''ready'')]) ''type'' = JStr ''ready''
   \<and> outbox (snd (receive doc_f 7 (JObj [(''type'', JStr ''ready'')]) (new_provider fs))) =
       [(7, JObj [(''type'', JStr ''init''),
                  (''body'', JObj [(''fileSize'', JNum 3), (''value'', JBytes [1, 2]),
                                   (''html'', JUndefined)])])]
   \<and> outbox (snd (receive (doc_f\<lparr>documentData := [1, 2, 3]\<rparr>) 7
                      (JObj [(''type'', JStr ''ready'')]) (new_provider fs))) =
       [(7, JObj [(''type'', JStr ''init''),
                  (''body'', JObj [(''fileSize'', JNum 3), (''value'', JBytes [1, 2, 3]),
                                   (''html'', JStr getBodyHTML)])])]"
proof -
  have h: "get_prop (JObj [(''type'', JStr ''ready'')]) ''type'' = JStr ''ready''" by simp
  from ready_sends_init [OF h, where d = doc_f and p = 7 and s = "new_provider fs"]
    ready_sends_init [OF h, where d = "doc_f\<lparr>documentData := [1, 2, 3]\<rparr>" and p = 7 and s = "new_provider fs"] h
  show ?thesis by (simp add: doc_f_def new_provider_def)
qed

text \<open>
  C4. On a message of type \<open>open-anyways\<close>, for every document, panel and state, the
  provider calls \<open>openAnyways\<close> on the document and then posts to that panel an
  \<open>init\<close> notification made from the document as the call left it: its \<open>value\<close> is
  the full content (the byte source's, unless the document was fully open before),
  and its \<open>html\<close> is the body markup whatever the sizes are.
\<close>

theorem open_anyways_sends_init:
  assumes "get_prop e ''type'' = JStr ''open-anyways''"
  shows "receive d p e s =
           (openAnyways (byteSource s (uri d)) d,
            s\<lparr>console := console s @ [e],
              outbox := outbox s @
                [(p, JObj [(''type'', JStr ''init''),
                           (''body'', JObj [(''fileSize'', JNum (int (filesize (openAnyways (byteSource s (uri d)) d)))),
                                            (''value'', JBytes (documentData (openAnyways (byteSource s (uri d)) d))),
                                            (''html'', JStr getBodyHTML)])])]\<rparr>)
         \<and> filesize (openAnyways (byteSource s (uri d)) d) = filesize d
         \<and> documentData (openAnyways (byteSource s (uri d)) d) =
             (if openedFully d then documentData d else byteSource s (uri d))"
  using assms
  by (simp add: receive_def onMessage_def onReady_def onOpenAnyways_def postMessage_def
      webview_postMessage_def init_body_def openAnyways_def Let_def)

theorem open_anyways_sends_init_witness:
  "get_prop (JObj [(''type'', JStr ''open-anyways'')]) ''type'' = JStr ''open-anyways''
   \<and> fst (receive doc_f 7 (JObj [(''type'', JStr ''open-anyways'')]) (new_provider fs)) =
       doc_f\<lparr>documentData := [1, 2, 3], openedFully := True\<rparr>
   \<and> outbox (snd (receive doc_f 7 (JObj [(''type'', JStr ''open-anyways'')]) (new_provider fs))) =
       [(7, JObj [(''type'', JStr ''init''),
                  (''body'', JObj [(''fileSize'', JNum 3), (''value'', JBytes [1, 2, 3]),
                                   (''html'', JStr getBodyHTML)])])]"
proof -
  have h: "get_prop (JObj [(''type'', JStr ''open-anyways'')]) ''type'' = JStr ''open-anyways''"
    by simp
  from open_anyways_sends_init [OF h, where d = doc_f and p = 7 and s = "new_provider fs"] h
  show ?thesis by (simp add: doc_f_def new_provider_def openAnyways_def fs_def)
qed

text \<open>
  C7. On a message of type \<open>edit\<close>, with any other content, for every document, panel
  and state, the provider shows the notice that the editor is read-only (and logs
  the message to the console, as it does every message). The document is as it was,
  nothing is posted to any panel, no request is made and nothing fails.
\<close>

theorem edit_shows_notice_only:
  assumes "get_prop e ''type'' = JStr ''edit''"
  shows "receive d p e s =
           (d, s\<lparr>console := console s @ [e],
                  notices := notices s @ [''This editor is currently readonly.'']\<rparr>)"
  using assms
  by (simp add: receive_def onMessage_def onReady_def onOpenAnyways_def Let_def)

theorem edit_shows_notice_only_witness:
  "get_prop (JObj [(''type'', JStr ''edit''), (''body'', JArr [JNum 0, JNum 255])]) ''type'' = JStr ''edit''
   \<and> receive doc_f 7 (JObj [(''type'', JStr ''edit''), (''body'', JArr [JNum 0, JNum 255])]) two_views =
       (doc_f, two_views\<lparr>console := console two_views @
                            [JObj [(''type'', JStr ''edit''), (''body'', JArr [JNum 0, JNum 255])]],
                          notices := notices two_views @ [''This editor is currently readonly.'']\<rparr>)"
proof -
  have h: "get_prop (JObj [(''type'', JStr ''edit''), (''body'', JArr [JNum 0, JNum 255])]) ''type'' = JStr ''edit''"
    by simp
  from edit_shows_notice_only [OF h, where d = doc_f and p = 7 and s = two_views] h
  show ?thesis by blast
qed

subsection \<open>The current-bytes query\<close>

text \<open>
  C6. When the collection holds no panel for the document, \<open>getFileData\<close> gives its
  caller a rejected promise whose error says that no webview was found, and leaves
  the provider as it was: no message is posted and no request id is used.
\<close>

theorem query_without_view_rejects:
  assumes "webviews_get (webviews s) (uri d) = []"
  shows "getFileData d s = (QRejected ''Could not find webview to save for'', s)"
  using assms by (simp add: getFileData_def)

theorem query_without_view_rejects_witness:
  "webviews_get (webviews (run [Open doc_f, Attach ''f'' 7, DisposeView 7] (new_provider fs))) (uri doc_f) = []
   \<and> fst (getFileData doc_f (run [Open doc_f, Attach ''f'' 7, DisposeView 7] (new_provider fs))) =
       QRejected ''Could not find webview to save for''
   \<and> snd (getFileData doc_f (run [Open doc_f, Attach ''f'' 7, DisposeView 7] (new_provider fs))) =
       run [Open doc_f, Attach ''f'' 7, DisposeView 7] (new_provider fs)"
proof -
  have h: "webviews_get (webviews (run [Open doc_f, Attach ''f'' 7, DisposeView 7] (new_provider fs))) (uri doc_f) = []"
    by (simp add: provider_defs doc_f_def)
  from query_without_view_rejects [OF h] h show ?thesis by simp
qed

text \<open>
  When the collection holds panels for the document, the query posts one request,
  to the first of them, and awaits its promise.
\<close>

lemma query_asks_first_view:
  assumes "webviews_get (webviews s) (uri d) = p # others"
  shows "getFileData d s =
     (QAwaiting (length (promises s)),
      s\<lparr>requestId := requestId s + 1, promises := promises s @ [Pending],
        callbacks := (callbacks s)(requestId s \<mapsto> length (promises s)),
        outbox := outbox s @
          [(p, JObj [(''type'', JStr ''getFileData''), (''requestId'', JNum (int (requestId s))),
                     (''body'', JObj [])])]\<rparr>)"
  using assms
  by (simp add: getFileData_def postMessageWithResponse_def webview_postMessage_def Let_def)

text \<open>
  C10. The query is to return the bytes of the response of the first panel. With
  panels 7 and 9 attached in that order, the query posts its request, with id 1, to
  panel 7 alone. The response of panel 7 carries the bytes 1, 2, 3, which the
  continuation of the query would return; but after the response has been delivered
  the query has returned nothing, since no listener calls the resolver.
\<close>

theorem query_awaits_forever:
  "getFileData doc_f two_views = (QAwaiting 0, snd (getFileData doc_f two_views))
   \<and> outbox (snd (getFileData doc_f two_views)) =
       [(7, JObj [(''type'', JStr ''getFileData''), (''requestId'', JNum 1), (''body'', JObj [])])]
   \<and> getFileData_resume (JObj [(''data'', JArr [JNum 1, JNum 2, JNum 3])]) = Some [1, 2, 3]
   \<and> query_returned
        (step (Receive ''f'' 7 (response 1 (JObj [(''data'', JArr [JNum 1, JNum 2, JNum 3])])))
           (snd (getFileData doc_f two_views)))
        (QAwaiting 0) = None"
  by (simp add: two_views_def provider_defs doc_f_def response_def getFileData_resume_def
      query_returned_def)

subsection \<open>Responses\<close>

text \<open>
  C1. A response is to fulfil the promise of the request whose id it carries and to
  take the entry out of the callback map. Three requests get the ids 1, 2, 3; their
  responses arrive in the order 3, 1, 2. After that all three entries are still in
  the map and all three promises are still pending: \<open>onMessage\<close> has no case for a
  message that carries a request id.
\<close>

theorem responses_not_dispatched:
  "callbacks out_of_order_run 1 = Some 0 \<and> callbacks out_of_order_run 2 = Some 1
   \<and> callbacks out_of_order_run 3 = Some 2
   \<and> promises out_of_order_run = [Pending, Pending, Pending]
   \<and> issued out_of_order_run = [1, 2, 3]"
  by (simp add: out_of_order_run_def provider_defs doc_f_def response_def)

subsection \<open>Several panels on one document\<close>

text \<open>
  C9. Attaching a panel to a document to which another panel is attached leaves both
  in the collection: \<open>get\<close> for the document returns what it returned before,
  followed by the two panels in the order they were attached.
\<close>

theorem two_views_of_one_document:
  "webviews_get (webviews (resolveCustomEditor d p2 (resolveCustomEditor d p1 s))) (uri d) =
     webviews_get (webviews s) (uri d) @ [p1, p2]"
  by (simp add: resolveCustomEditor_def webviews_add_def webviews_get_def)

theorem two_views_of_one_document_witness:
  "webviews_get (webviews two_views) ''f'' = [7, 9]"
  using two_views_of_one_document [where d = doc_f and ?p1.0 = 7 and ?p2.0 = 9 and s = "step (Open doc_f) (new_provider fs)"]
  by (simp add: two_views_def provider_defs doc_f_def)

end
